theory Spec2Isabelle
  imports Complex_Main
begin

section \<open>The max-func-body-length rule (src/maxFuncBodyLengthRule.ts)\<close>

subsection \<open>Syntax trees\<close>

text \<open>
  The kinds of \<open>ts.SyntaxKind\<close> that the walker distinguishes; every other kind of the
  TypeScript compiler is \<open>OtherKind k\<close>, with \<open>k\<close> its numeric code.
\<close>

datatype syntaxKind =
    FunctionDeclaration
  | MethodDeclaration
  | ArrowFunction
  | Constructor
  | ClassDeclaration
  | CallExpression
  | OtherKind nat

text \<open>
  A \<open>ts.Node\<close>. The fields are the properties that the rule reads:
  \<^item> \<open>nid\<close>: the identity of the node object (the source compares nodes by reference);
  \<^item> \<open>kind\<close>: \<open>node.kind\<close>;
  \<^item> \<open>name\<close>: \<open>node.name\<close>, \<open>None\<close> when the node has no name node, and otherwise the
    \<open>text\<close> property of the name node, itself \<open>None\<close> when the name node has no text
    (a computed property name);
  \<^item> \<open>body\<close>: \<open>node.body\<close> as the pair of offsets \<open>(body.pos, body.end)\<close>, \<open>None\<close> when
    \<open>node.body == null\<close>;
  \<^item> \<open>functionName\<close>: for a call expression, the string that
    \<open>AstUtils.getFunctionName(node)\<close> returns;
  \<^item> \<open>getStart\<close>, \<open>getWidth\<close>: the node's reported span;
  \<^item> \<open>children\<close>: the child nodes that \<open>ts.forEachChild\<close> visits before the node's
    \<open>arguments\<close> (for a node without arguments, all its children);
  \<^item> \<open>arguments\<close>: \<open>node.arguments\<close>, the argument expressions, visited last.
\<close>

datatype node =
  Node (nid: nat) (kind: syntaxKind) (name: "string option option")
       (body: "(nat \<times> nat) option") (functionName: string)
       (getStart: nat) (getWidth: nat)
       (children: "node list") (arguments: "node list")

text \<open>The identities of a node and of all its descendants, in visiting order.\<close>

fun subtreeIds :: "node \<Rightarrow> nat list" where
  "subtreeIds (Node i k nm b fn st wd cs args) = i # concat (map subtreeIds (cs @ args))"

text \<open>The identities of the proper descendants of a node.\<close>

definition descendantIds :: "node \<Rightarrow> nat list" where
  "descendantIds n = concat (map subtreeIds (children n @ arguments n))"

subsection \<open>JavaScript values\<close>

text \<open>
  A JavaScript \<open>number\<close>: a finite value (every finite double is a rational; \<open>0\<close>
  and \<open>-0\<close> are both \<open>Finite 0\<close>), one of the infinities, or \<open>NaN\<close>.
\<close>

datatype jsNumber = Finite rat | PosInfinity | NegInfinity | NaN

text \<open>
  A value read from the options, which the source takes as \<open>any\<close> and stores
  unchecked; \<open>undefined\<close> is \<open>None\<close> of \<open>jsValue option\<close>. An array or object is
  given by what the rule can observe of it: the number that \<open>ToNumber\<close> makes of it
  and the string that \<open>ToString\<close> makes of it.
\<close>

datatype jsValue =
    JNull
  | JBool bool
  | JNumber jsNumber
  | JString string
  | JObject jsNumber string

text \<open>
  The primitives of the JavaScript runtime whose results the model takes as given:
  \<^item> \<open>regExp\<close>: the \<open>RegExp\<close> constructor, \<open>None\<close> where \<open>new RegExp(pattern)\<close>
    throws a SyntaxError, and otherwise the \<open>test\<close> method of the compiled expression;
  \<^item> \<open>numberToString\<close>: \<open>Number::toString\<close> on finite numbers that are not integers
    of magnitude below \<open>10^21\<close> (on those integers it is plain decimal, see
    \<open>showNumber\<close>);
  \<^item> \<open>stringToNumber\<close>: \<open>ToNumber\<close> on strings.
\<close>

record javascript =
  regExp :: "string \<Rightarrow> (string \<Rightarrow> bool) option"
  numberToString :: "jsNumber \<Rightarrow> string"
  stringToNumber :: "string \<Rightarrow> jsNumber"

text \<open>Truthiness, as \<open>if (v)\<close> and \<open>v || d\<close> test it.\<close>

fun truthy :: "jsValue \<Rightarrow> bool" where
  "truthy JNull = False"
| "truthy (JBool b) = b"
| "truthy (JNumber (Finite q)) = (q \<noteq> 0)"
| "truthy (JNumber NaN) = False"
| "truthy (JNumber PosInfinity) = True"
| "truthy (JNumber NegInfinity) = True"
| "truthy (JString s) = (s \<noteq> [])"
| "truthy (JObject n s) = True"

text \<open>\<open>ToNumber\<close>, which the comparison \<open>length > max\<close> applies to \<open>max\<close>.\<close>

fun toNumber :: "javascript \<Rightarrow> jsValue \<Rightarrow> jsNumber" where
  "toNumber rt JNull = Finite 0"
| "toNumber rt (JBool b) = Finite (if b then 1 else 0)"
| "toNumber rt (JNumber x) = x"
| "toNumber rt (JString s) = stringToNumber rt s"
| "toNumber rt (JObject n s) = n"

text \<open>
  What a template literal prints for a value: an integer of magnitude below \<open>10^21\<close>
  in plain decimal, a string as it is, and \<open>undefined\<close> as the word \<open>undefined\<close>.
\<close>

function showNat :: "nat \<Rightarrow> string" where
  "showNat n =
     (if n < 10 then [''0123456789'' ! n]
      else showNat (n div 10) @ [''0123456789'' ! (n mod 10)])"
  by pat_completeness auto
termination
  by (relation "measure id") auto

declare showNat.simps [simp del]

definition showInt :: "int \<Rightarrow> string" where
  "showInt i = (if i < 0 then CHR ''-'' # showNat (nat (- i)) else showNat (nat i))"

fun showNumber :: "javascript \<Rightarrow> jsNumber \<Rightarrow> string" where
  "showNumber rt (Finite q) =
     (case quotient_of q of
        (n, d) \<Rightarrow>
          if d = 1 \<and> \<bar>n\<bar> < 1000000000000000000000 then showInt n
          else numberToString rt (Finite q))"
| "showNumber rt PosInfinity = ''Infinity''"
| "showNumber rt NegInfinity = ''-Infinity''"
| "showNumber rt NaN = ''NaN''"

declare showNumber.simps [simp del]

fun showValue :: "javascript \<Rightarrow> jsValue option \<Rightarrow> string" where
  "showValue rt None = ''undefined''"
| "showValue rt (Some JNull) = ''null''"
| "showValue rt (Some (JBool b)) = (if b then ''true'' else ''false'')"
| "showValue rt (Some (JNumber x)) = showNumber rt x"
| "showValue rt (Some (JString s)) = s"
| "showValue rt (Some (JObject n s)) = s"

fun showString :: "string option \<Rightarrow> string" where
  "showString None = ''undefined''"
| "showString (Some s) = s"

subsection \<open>Errors, failures and the walker's fields\<close>

text \<open>
  The exceptions the source can throw: \<open>new RegExp\<close> on a malformed pattern, reading
  a property of \<open>null\<close> or \<open>undefined\<close>, and the two
  \<open>throw new Error(`Unsupported node kind: ...`)\<close>.
\<close>

datatype error =
    SyntaxError string
  | TypeError
  | UnsupportedNodeKind syntaxKind

text \<open>
  A \<open>Lint.RuleFailure\<close> as \<open>createFailure(node.getStart(), node.getWidth(), text)\<close>
  builds it; \<open>failureNode\<close> records the node the span was read from.
\<close>

record failure =
  failureNode :: nat
  failureStart :: nat
  failureWidth :: nat
  failureText :: string

text \<open>
  The private fields of \<open>MaxFunctionBodyLengthRuleWalker\<close>, the failures collected by
  \<open>addFailure\<close>, the line lookup of the walker's source file
  (\<open>getLineAndCharacterOfPosition(p).line\<close>) and the runtime the walker runs in. A
  field is \<open>None\<close> while it is \<open>undefined\<close>. \<open>maxBodyLength\<close> is only assigned
  under \<open>typeof(opt) === 'number'\<close>; the four per-kind fields are assigned whatever
  the options object holds. A compiled \<open>RegExp\<close> is its \<open>test\<close> method.
\<close>

record walker =
  maxBodyLength :: "jsNumber option"
  maxFuncBodyLength :: "jsValue option"
  maxArrowBodyLength :: "jsValue option"
  maxMethodBodyLength :: "jsValue option"
  maxCtorBodyLength :: "jsValue option"
  currentClassName :: "string option"
  ignoreParametersToFunctionRegex :: "(string \<Rightarrow> bool) option"
  ignoreNodes :: "nat list"
  failures :: "failure list"
  lineOfPosition :: "nat \<Rightarrow> nat"
  js :: javascript

subsection \<open>Options\<close>

text \<open>
  One entry of the options array. An object entry (an array is one too, with no key
  present) carries the four per-kind keys and the pattern key, each \<open>None\<close> when the
  key is absent and otherwise any value. \<open>OptNull\<close> is \<open>null\<close>, whose \<open>typeof\<close> is
  \<open>'object'\<close>; \<open>OptOther\<close> is a string or a boolean.
\<close>

record optionsObject =
  funcBodyLength :: "jsValue option"
  arrowBodyLength :: "jsValue option"
  methodBodyLength :: "jsValue option"
  ctorBodyLength :: "jsValue option"
  ignoreParametersToFunction :: "jsValue option"

datatype opt =
    OptNumber jsNumber
  | OptObject optionsObject
  | OptNull
  | OptOther

text \<open>
  The body of the \<open>forEach\<close> callback of \<open>parseOptions\<close>. \<open>if (regex)\<close> is false
  for an absent key and for a falsy value such as the empty string; \<open>new RegExp\<close>
  takes the string of its argument and throws a SyntaxError where \<open>regExp\<close> is
  \<open>None\<close>. Reading a property of \<open>null\<close> throws a TypeError.
\<close>

fun parseOption :: "walker \<Rightarrow> opt \<Rightarrow> error + walker" where
  "parseOption w (OptNumber n) = Inr (w\<lparr>maxBodyLength := Some n\<rparr>)"
| "parseOption w (OptObject ob) =
     (let w' = w\<lparr>maxFuncBodyLength := funcBodyLength ob,
                  maxArrowBodyLength := arrowBodyLength ob,
                  maxMethodBodyLength := methodBodyLength ob,
                  maxCtorBodyLength := ctorBodyLength ob\<rparr>
      in case ignoreParametersToFunction ob of
           None \<Rightarrow> Inr w'
         | Some regex \<Rightarrow>
             if truthy regex then
               (case regExp (js w) (showValue (js w) (Some regex)) of
                  None \<Rightarrow> Inl (SyntaxError (showValue (js w) (Some regex)))
                | Some re \<Rightarrow> Inr (w'\<lparr>ignoreParametersToFunctionRegex := Some re\<rparr>))
             else Inr w')"
| "parseOption w OptNull = Inl TypeError"
| "parseOption w OptOther = Inr w"

fun parseOptions :: "walker \<Rightarrow> opt list \<Rightarrow> error + walker" where
  "parseOptions w [] = Inr w"
| "parseOptions w (x # xs) =
     (case parseOption w x of
        Inl e \<Rightarrow> Inl e
      | Inr w' \<Rightarrow> parseOptions w' xs)"

subsection \<open>Kind labels and thresholds\<close>

fun getFuncTypeText :: "syntaxKind \<Rightarrow> error + string" where
  "getFuncTypeText FunctionDeclaration = Inr ''function''"
| "getFuncTypeText MethodDeclaration = Inr ''method''"
| "getFuncTypeText ArrowFunction = Inr ''arrow function''"
| "getFuncTypeText Constructor = Inr ''constructor''"
| "getFuncTypeText k = Inl (UnsupportedNodeKind k)"

text \<open>\<open>result || this.maxBodyLength\<close>: the fallback when \<open>result\<close> is falsy.\<close>

fun orElse :: "jsValue option \<Rightarrow> jsNumber option \<Rightarrow> jsValue option" where
  "orElse None d = map_option JNumber d"
| "orElse (Some v) d = (if truthy v then Some v else map_option JNumber d)"

fun getMaxLength :: "walker \<Rightarrow> syntaxKind \<Rightarrow> error + jsValue option" where
  "getMaxLength w FunctionDeclaration = Inr (orElse (maxFuncBodyLength w) (maxBodyLength w))"
| "getMaxLength w MethodDeclaration = Inr (orElse (maxMethodBodyLength w) (maxBodyLength w))"
| "getMaxLength w ArrowFunction = Inr (orElse (maxArrowBodyLength w) (maxBodyLength w))"
| "getMaxLength w Constructor = Inr (orElse (maxCtorBodyLength w) (maxBodyLength w))"
| "getMaxLength w k = Inl (UnsupportedNodeKind k)"

text \<open>
  \<open>length > max\<close> for an integer \<open>length\<close>: false when \<open>max\<close> is \<open>undefined\<close> or
  its number is \<open>NaN\<close>.
\<close>

fun exceedsNumber :: "int \<Rightarrow> jsNumber \<Rightarrow> bool" where
  "exceedsNumber len (Finite q) = (q < of_int len)"
| "exceedsNumber len NegInfinity = True"
| "exceedsNumber len PosInfinity = False"
| "exceedsNumber len NaN = False"

fun greaterThan :: "javascript \<Rightarrow> int \<Rightarrow> jsValue option \<Rightarrow> bool" where
  "greaterThan rt len None = False"
| "greaterThan rt len (Some v) = exceedsNumber len (toNumber rt v)"

definition isFunctionTooLong :: "walker \<Rightarrow> syntaxKind \<Rightarrow> int \<Rightarrow> error + bool" where
  "isFunctionTooLong w nodeKind len =
     (case getMaxLength w nodeKind of
        Inl e \<Rightarrow> Inl e
      | Inr m \<Rightarrow> Inr (greaterThan (js w) len m))"

definition calcBodyLength :: "walker \<Rightarrow> node \<Rightarrow> int" where
  "calcBodyLength w node =
     (case body node of
        None \<Rightarrow> 0
      | Some (bodyPos, bodyEnd) \<Rightarrow>
          (let startLine = lineOfPosition w bodyPos;
               endLine = lineOfPosition w bodyEnd
           in int endLine - int startLine))"

subsection \<open>Failure messages\<close>

text \<open>\<open>(<any>node.name).text\<close>: a TypeError when \<open>node.name\<close> is undefined.\<close>

definition nameText :: "node \<Rightarrow> error + string option" where
  "nameText node = (case name node of None \<Rightarrow> Inl TypeError | Some t \<Rightarrow> Inr t)"

definition formatPlaceText :: "walker \<Rightarrow> node \<Rightarrow> error + string" where
  "formatPlaceText w node =
     (case getFuncTypeText (kind node) of
        Inl e \<Rightarrow> Inl e
      | Inr funcTypeText \<Rightarrow>
          if kind node = MethodDeclaration \<or> kind node = FunctionDeclaration then
            (case nameText node of
               Inl e \<Rightarrow> Inl e
             | Inr t \<Rightarrow> Inr ('' in '' @ funcTypeText @ '' '' @ showString t @ ''()''))
          else if kind node = Constructor then
            Inr ('' in class '' @ showString (currentClassName w))
          else Inr [])"

definition formatFailureText :: "walker \<Rightarrow> node \<Rightarrow> int \<Rightarrow> error + string" where
  "formatFailureText w node len =
     (case getFuncTypeText (kind node) of
        Inl e \<Rightarrow> Inl e
      | Inr funcTypeText \<Rightarrow>
          (case getMaxLength w (kind node) of
             Inl e \<Rightarrow> Inl e
           | Inr maxLength \<Rightarrow>
               (case formatPlaceText w node of
                  Inl e \<Rightarrow> Inl e
                | Inr placeText \<Rightarrow>
                    Inr (''Max '' @ funcTypeText @ '' body length exceeded'' @ placeText
                         @ '' - max: '' @ showValue (js w) maxLength
                         @ '', actual: '' @ showNumber (js w) (Finite (of_int len))))))"

definition addFuncBodyTooLongFailure :: "walker \<Rightarrow> node \<Rightarrow> int \<Rightarrow> error + walker" where
  "addFuncBodyTooLongFailure w node len =
     (case formatFailureText w node len of
        Inl e \<Rightarrow> Inl e
      | Inr msg \<Rightarrow>
          Inr (w\<lparr>failures := failures w @
                 [\<lparr>failureNode = nid node, failureStart = getStart node,
                   failureWidth = getWidth node, failureText = msg\<rparr>]\<rparr>))"

subsection \<open>Validation\<close>

text \<open>
  Modelled from the spec: \<open>Utils.contains\<close> and \<open>Utils.removeAll\<close> (utils/Utils) are
  not among the source files. Membership and removal are by node identity, and
  \<open>removeAll\<close> keeps the elements of its first list that are not among the second
  (set difference, in order).
\<close>

definition contains :: "nat list \<Rightarrow> nat \<Rightarrow> bool" where
  "contains xs x = (x \<in> set xs)"

definition removeAllFrom :: "nat list \<Rightarrow> nat list \<Rightarrow> nat list" where
  "removeAllFrom source elementsToRemove =
     filter (\<lambda>x. \<not> contains elementsToRemove x) source"

definition validate :: "walker \<Rightarrow> node \<Rightarrow> error + walker" where
  "validate w node =
     (if \<not> contains (ignoreNodes w) (nid node) then
        (let bodyLength = calcBodyLength w node
         in case isFunctionTooLong w (kind node) bodyLength of
              Inl e \<Rightarrow> Inl e
            | Inr tooLong \<Rightarrow>
                if tooLong then addFuncBodyTooLongFailure w node bodyLength
                else Inr w)
      else Inr w)"

subsection \<open>The traversal\<close>

text \<open>
  Modelled from the spec: the dispatch of \<open>Lint.RuleWalker\<close> is not among the source
  files. \<open>visitNode\<close> calls the hook of the node's kind; a hook's
  \<open>super.visit...\<close> call, and the default for every other kind, is
  \<open>walkChildren\<close>, which visits the children in source order. The four branches of
  \<open>visitNode\<close> below are \<open>visitCallExpression\<close>, \<open>visitClassDeclaration\<close>, the
  four function-like hooks, and the default.
\<close>

definition isFunctionLike :: "syntaxKind \<Rightarrow> bool" where
  "isFunctionLike k =
     (k = ArrowFunction \<or> k = MethodDeclaration \<or> k = FunctionDeclaration \<or> k = Constructor)"

definition matchesIgnoreRegex :: "walker \<Rightarrow> string \<Rightarrow> bool" where
  "matchesIgnoreRegex w fn =
     (case ignoreParametersToFunctionRegex w of None \<Rightarrow> False | Some re \<Rightarrow> re fn)"

fun visitNode :: "walker \<Rightarrow> node \<Rightarrow> error + walker"
  and walkChildren :: "walker \<Rightarrow> node list \<Rightarrow> error + walker" where
  "visitNode w (Node i k nm b fn st wd cs args) =
     (if k = CallExpression then
        (if matchesIgnoreRegex w fn then
           (case walkChildren (w\<lparr>ignoreNodes := ignoreNodes w @ map nid args\<rparr>) (cs @ args) of
              Inl e \<Rightarrow> Inl e
            | Inr w' \<Rightarrow>
                Inr (w'\<lparr>ignoreNodes := removeAllFrom (ignoreNodes w') (map nid args)\<rparr>))
         else walkChildren w (cs @ args))
      else if k = ClassDeclaration then
        (case nameText (Node i k nm b fn st wd cs args) of
           Inl e \<Rightarrow> Inl e
         | Inr t \<Rightarrow>
             (case walkChildren (w\<lparr>currentClassName := t\<rparr>) (cs @ args) of
                Inl e \<Rightarrow> Inl e
              | Inr w' \<Rightarrow> Inr (w'\<lparr>currentClassName := None\<rparr>)))
      else if isFunctionLike k then
        (case validate w (Node i k nm b fn st wd cs args) of
           Inl e \<Rightarrow> Inl e
         | Inr w' \<Rightarrow> walkChildren w' (cs @ args))
      else walkChildren w (cs @ args))"
| "walkChildren w [] = Inr w"
| "walkChildren w (c # rest) =
     (case visitNode w c of
        Inl e \<Rightarrow> Inl e
      | Inr w' \<Rightarrow> walkChildren w' rest)"

subsection \<open>Running the rule on a file\<close>

record sourceFile =
  ast :: node
  getLineOfPosition :: "nat \<Rightarrow> nat"

text \<open>The walker's constructor: the field initialisers, then \<open>parseOptions\<close>.\<close>

definition initialWalker :: "javascript \<Rightarrow> sourceFile \<Rightarrow> walker" where
  "initialWalker rt sf =
     \<lparr>maxBodyLength = None, maxFuncBodyLength = None, maxArrowBodyLength = None,
      maxMethodBodyLength = None, maxCtorBodyLength = None, currentClassName = None,
      ignoreParametersToFunctionRegex = None, ignoreNodes = [], failures = [],
      lineOfPosition = getLineOfPosition sf, js = rt\<rparr>"

definition newWalker :: "javascript \<Rightarrow> sourceFile \<Rightarrow> opt list \<Rightarrow> error + walker" where
  "newWalker rt sf options = parseOptions (initialWalker rt sf) options"

text \<open>
  \<open>Rule.apply\<close>: build the walker, walk the file, return the collected failures.
\<close>

definition applyRule :: "javascript \<Rightarrow> sourceFile \<Rightarrow> opt list \<Rightarrow> error + failure list" where
  "applyRule rt sf options =
     (case newWalker rt sf options of
        Inl e \<Rightarrow> Inl e
      | Inr w \<Rightarrow>
          (case visitNode w (ast sf) of
             Inl e \<Rightarrow> Inl e
           | Inr w' \<Rightarrow> Inr (failures w')))"

subsection \<open>The specification's wording\<close>

text \<open>
  The specification's threshold resolution, written from its words for comparison with
  \<open>getMaxLength\<close>: the per-kind configured maximum if it is set and not falsy,
  otherwise the single numeric fallback, which may itself be undefined.
\<close>

definition perKindMaximum :: "walker \<Rightarrow> syntaxKind \<Rightarrow> jsValue option" where
  "perKindMaximum w k =
     (case k of
        FunctionDeclaration \<Rightarrow> maxFuncBodyLength w
      | MethodDeclaration \<Rightarrow> maxMethodBodyLength w
      | ArrowFunction \<Rightarrow> maxArrowBodyLength w
      | Constructor \<Rightarrow> maxCtorBodyLength w
      | _ \<Rightarrow> None)"

definition resolvedThreshold :: "walker \<Rightarrow> syntaxKind \<Rightarrow> jsValue option" where
  "resolvedThreshold w k =
     (case perKindMaximum w k of
        Some v \<Rightarrow> if truthy v then Some v else map_option JNumber (maxBodyLength w)
      | None \<Rightarrow> map_option JNumber (maxBodyLength w))"

text \<open>A number below zero; \<open>NaN\<close> is not.\<close>

fun negative :: "jsNumber \<Rightarrow> bool" where
  "negative (Finite q) = (q < 0)"
| "negative NegInfinity = True"
| "negative PosInfinity = False"
| "negative NaN = False"








subsection \<open>Example inputs\<close>

text \<open>
  In every example file a line is ten characters long, so offset \<open>p\<close> lies on line
  \<open>p div 10\<close>. \<open>exampleRegExp\<close> stands for the \<open>RegExp\<close> constructor: the
  pattern \<open>(\<close> does not compile, and any other pattern compiles to a test that
  accepts the name equal to it (the empty pattern accepts every name). The examples
  print integers below \<open>10^21\<close> only and compare lengths with numbers and booleans
  only, so the other two primitives of \<open>exampleJs\<close> are never called.
\<close>

definition exampleRegExp :: "string \<Rightarrow> (string \<Rightarrow> bool) option" where
  "exampleRegExp pattern =
     (if pattern = ''('' then None else Some (\<lambda>s. s = pattern \<or> pattern = []))"

definition exampleJs :: javascript where
  "exampleJs =
     \<lparr>regExp = exampleRegExp, numberToString = (\<lambda>x. []), stringToNumber = (\<lambda>s. NaN)\<rparr>"

text \<open>
  A walker configured with \<open>{method-body-length: 3}\<close>; a method \<open>foo\<close> whose body
  runs from line 1 to line 6; a function \<open>f\<close> whose body lies on line 1; an abstract
  method \<open>bar\<close> (no body); a class declaration without a name.
\<close>

definition exampleWalker :: walker where
  "exampleWalker =
     \<lparr>maxBodyLength = None, maxFuncBodyLength = None, maxArrowBodyLength = None,
      maxMethodBodyLength = Some (JNumber (Finite 3)), maxCtorBodyLength = None,
      currentClassName = None, ignoreParametersToFunctionRegex = None, ignoreNodes = [],
      failures = [], lineOfPosition = (\<lambda>p. p div 10), js = exampleJs\<rparr>"

definition methodFoo :: node where
  "methodFoo = Node 1 MethodDeclaration (Some (Some ''foo'')) (Some (14, 68)) [] 2 68 [] []"

definition oneLiner :: node where
  "oneLiner = Node 7 FunctionDeclaration (Some (Some ''f'')) (Some (12, 19)) [] 0 19 [] []"

definition abstractMethod :: node where
  "abstractMethod = Node 9 MethodDeclaration (Some (Some ''bar'')) None [] 4 22 [] []"

definition anonymousClass :: node where
  "anonymousClass = Node 1 ClassDeclaration None None [] 0 25 [] []"




text \<open>
  The overload signature \<open>function f(): void;\<close> (a function declaration without a
  body) as the only statement of a file, and the options \<open>[-1]\<close>.
\<close>

definition overloadSignature :: node where
  "overloadSignature = Node 1 FunctionDeclaration (Some (Some ''f'')) None [] 0 21 [] []"

definition signatureFile :: sourceFile where
  "signatureFile =
     \<lparr>ast = Node 0 (OtherKind 0) None None [] 0 21 [overloadSignature] [],
      getLineOfPosition = (\<lambda>p. p div 10)\<rparr>"

definition fallbackMinusOne :: "opt list" where
  "fallbackMinusOne = [OptNumber (Finite (- 1))]"

text \<open>
  The options \<open>[50, {ignore-parameters-to-function-regex: "("}]\<close> and a file without
  statements.
\<close>

definition badPatternOptions :: "opt list" where
  "badPatternOptions =
     [OptNumber (Finite 50),
      OptObject \<lparr>funcBodyLength = None, arrowBodyLength = None, methodBodyLength = None,
                 ctorBodyLength = None, ignoreParametersToFunction = Some (JString ''('')\<rparr>]"

definition emptyFile :: sourceFile where
  "emptyFile =
     \<lparr>ast = Node 0 (OtherKind 0) None None [] 0 0 [] [],
      getLineOfPosition = (\<lambda>p. p div 10)\<rparr>"

text \<open>
  The file
  \<^verbatim>\<open>class Outer { m() { class Inner {} } constructor() { ... } }\<close>
  where the constructor's body runs from line 5 to line 10, and the options
  \<open>[{ctor-body-length: 2}]\<close>.
\<close>

definition nestedClassFile :: sourceFile where
  "nestedClassFile =
     \<lparr>ast =
        Node 0 (OtherKind 0) None None [] 0 120
          [Node 1 ClassDeclaration (Some (Some ''Outer'')) None [] 0 120
             [Node 2 MethodDeclaration (Some (Some ''m'')) (Some (22, 38)) [] 20 18
                [Node 3 ClassDeclaration (Some (Some ''Inner'')) None [] 24 12 [] []] [],
              Node 4 Constructor None (Some (54, 108)) [] 40 68 [] []] []] [],
      getLineOfPosition = (\<lambda>p. p div 10)\<rparr>"

definition ctorOptions :: "opt list" where
  "ctorOptions =
     [OptObject \<lparr>funcBodyLength = None, arrowBodyLength = None, methodBodyLength = None,
                 ctorBodyLength = Some (JNumber (Finite 2)),
                 ignoreParametersToFunction = None\<rparr>]"

text \<open>
  The call \<^verbatim>\<open>describe(() => { it(() => { ... }) })\<close>: the outer arrow function
  (node 3, lines 2 to 9) is the argument of \<open>describe\<close>; the inner arrow function
  (node 6, lines 3 to 9) is the argument of \<open>it\<close>, inside the outer one. The walker
  has the fallback maximum 5 and a pattern that matches \<open>describe\<close> only;
  \<open>suppressedWalker\<close> is that walker while it visits the children of the call, with
  the argument (node 3) on the ignore list.
\<close>

definition describeInner :: node where
  "describeInner = Node 6 ArrowFunction None (Some (36, 92)) [] 30 62 [] []"

definition describeArgument :: node where
  "describeArgument =
     Node 3 ArrowFunction None (Some (26, 95)) [] 20 75
       [Node 4 CallExpression None None ''it'' 27 66
          [Node 5 (OtherKind 1) None None [] 27 2 [] []] [describeInner]] []"

definition describeCall :: node where
  "describeCall =
     Node 1 CallExpression None None ''describe'' 10 86
       [Node 2 (OtherKind 1) None None [] 10 8 [] []] [describeArgument]"

definition suppressingWalker :: walker where
  "suppressingWalker =
     \<lparr>maxBodyLength = Some (Finite 5), maxFuncBodyLength = None, maxArrowBodyLength = None,
      maxMethodBodyLength = None, maxCtorBodyLength = None, currentClassName = None,
      ignoreParametersToFunctionRegex = Some (\<lambda>s. s = ''describe''), ignoreNodes = [],
      failures = [], lineOfPosition = (\<lambda>p. p div 10), js = exampleJs\<rparr>"

definition suppressedWalker :: walker where
  "suppressedWalker = suppressingWalker\<lparr>ignoreNodes := [3]\<rparr>"

section \<open>Properties\<close>

text \<open>The definitions that evaluating a visit on a concrete tree unfolds.\<close>

lemmas visit_eval =
  validate_def contains_def removeAllFrom_def matchesIgnoreRegex_def calcBodyLength_def
  isFunctionTooLong_def addFuncBodyTooLongFailure_def isFunctionLike_def
  formatFailureText_def formatPlaceText_def nameText_def showNumber.simps showInt_def
  showNat.simps exampleJs_def

lemmas rule_eval = applyRule_def newWalker_def initialWalker_def visit_eval

subsection \<open>Thresholds and body length\<close>

lemma getMaxLength_resolved:
  "isFunctionLike k \<Longrightarrow> getMaxLength w k = Inr (resolvedThreshold w k)"
  by (cases k; cases "perKindMaximum w k")
     (auto simp: isFunctionLike_def resolvedThreshold_def perKindMaximum_def)

lemma isFunctionTooLong_resolved:
  assumes "isFunctionLike k"
  shows "isFunctionTooLong w k len = Inr (greaterThan (js w) len (resolvedThreshold w k))"
  using getMaxLength_resolved [OF assms, of w] by (simp add: isFunctionTooLong_def)

lemma formatFailureText_defined:
  assumes "isFunctionLike (kind node)"
    and "kind node = FunctionDeclaration \<or> kind node = MethodDeclaration \<longrightarrow> name node \<noteq> None"
  shows "\<exists>msg. formatFailureText w node len = Inr msg"
  using assms
  by (cases "kind node")
     (auto simp: isFunctionLike_def formatFailureText_def formatPlaceText_def nameText_def
        split: option.splits)

lemma failures_append_neq: "w \<noteq> w\<lparr>failures := failures w @ [f]\<rparr>"
proof
  assume "w = w\<lparr>failures := failures w @ [f]\<rparr>"
  then have "failures w = failures (w\<lparr>failures := failures w @ [f]\<rparr>)" by simp
  then show False by simp
qed

text \<open>
  C3, as the code has it. Validating a function-like node that is on the ignore list
  records nothing. Validating one that is not on the list (and that has a name node, if
  it is a function or method declaration) returns, and records a failure for the node
  exactly when its computed body length is strictly greater than the threshold resolved
  for its kind: the per-kind maximum when it is set and not falsy, otherwise the numeric
  fallback; with neither, the threshold is undefined and the comparison is false.
\<close>

theorem flagged_iff_exceeds_resolved_threshold:
  assumes "isFunctionLike (kind node)"
  shows "(nid node \<in> set (ignoreNodes w) \<longrightarrow> validate w node = Inr w) \<and>
         (nid node \<notin> set (ignoreNodes w) \<and>
          (kind node = FunctionDeclaration \<or> kind node = MethodDeclaration
             \<longrightarrow> name node \<noteq> None) \<longrightarrow>
          (\<exists>w'. validate w node = Inr w' \<and>
             ((\<exists>msg. w' = w\<lparr>failures := failures w @
                              [\<lparr>failureNode = nid node, failureStart = getStart node,
                                failureWidth = getWidth node, failureText = msg\<rparr>]\<rparr>)
              \<longleftrightarrow> greaterThan (js w) (calcBodyLength w node)
                                (resolvedThreshold w (kind node))) \<and>
             (\<not> greaterThan (js w) (calcBodyLength w node) (resolvedThreshold w (kind node))
              \<longrightarrow> w' = w)))"
proof (intro conjI impI)
  assume "nid node \<in> set (ignoreNodes w)"
  then show "validate w node = Inr w" by (simp add: validate_def contains_def)
next
  let ?len = "calcBodyLength w node"
  let ?exceeds = "greaterThan (js w) ?len (resolvedThreshold w (kind node))"
  assume a: "nid node \<notin> set (ignoreNodes w) \<and>
          (kind node = FunctionDeclaration \<or> kind node = MethodDeclaration
             \<longrightarrow> name node \<noteq> None)"
  have tooLong: "isFunctionTooLong w (kind node) ?len = Inr ?exceeds"
    by (rule isFunctionTooLong_resolved [OF assms])
  show "\<exists>w'. validate w node = Inr w' \<and>
          ((\<exists>msg. w' = w\<lparr>failures := failures w @
                           [\<lparr>failureNode = nid node, failureStart = getStart node,
                             failureWidth = getWidth node, failureText = msg\<rparr>]\<rparr>)
           \<longleftrightarrow> ?exceeds) \<and>
          (\<not> ?exceeds \<longrightarrow> w' = w)"
  proof (cases ?exceeds)
    case True
    from a formatFailureText_defined [OF assms, of w ?len] obtain msg where
      msg: "formatFailureText w node ?len = Inr msg" by blast
    from a tooLong True msg
    have "validate w node =
            Inr (w\<lparr>failures := failures w @
                   [\<lparr>failureNode = nid node, failureStart = getStart node,
                     failureWidth = getWidth node, failureText = msg\<rparr>]\<rparr>)"
      by (simp add: validate_def contains_def addFuncBodyTooLongFailure_def)
    with True show ?thesis by blast
  next
    case False
    from a tooLong False have "validate w node = Inr w"
      by (simp add: validate_def contains_def)
    with False failures_append_neq [of w] show ?thesis by blast
  qed
qed

theorem flagged_iff_exceeds_resolved_threshold_witness:
  "isFunctionLike (kind methodFoo) \<and> nid methodFoo \<notin> set (ignoreNodes exampleWalker) \<and>
   name methodFoo \<noteq> None \<and> calcBodyLength exampleWalker methodFoo = 5 \<and>
   resolvedThreshold exampleWalker (kind methodFoo) = Some (JNumber (Finite 3)) \<and>
   (\<exists>msg. validate exampleWalker methodFoo =
      Inr (exampleWalker\<lparr>failures := failures exampleWalker @
             [\<lparr>failureNode = nid methodFoo, failureStart = getStart methodFoo,
               failureWidth = getWidth methodFoo, failureText = msg\<rparr>]\<rparr>))"
proof -
  have k: "isFunctionLike (kind methodFoo)"
    by (simp add: methodFoo_def isFunctionLike_def)
  have i: "nid methodFoo \<notin> set (ignoreNodes exampleWalker)"
    by (simp add: exampleWalker_def)
  have n: "name methodFoo \<noteq> None" by (simp add: methodFoo_def)
  have len: "calcBodyLength exampleWalker methodFoo = 5"
    by (simp add: methodFoo_def exampleWalker_def calcBodyLength_def)
  have thr: "resolvedThreshold exampleWalker (kind methodFoo) = Some (JNumber (Finite 3))"
    by (simp add: methodFoo_def exampleWalker_def resolvedThreshold_def perKindMaximum_def)
  have ex: "greaterThan (js exampleWalker) (calcBodyLength exampleWalker methodFoo)
              (resolvedThreshold exampleWalker (kind methodFoo))"
    by (simp add: len thr)
  from flagged_iff_exceeds_resolved_threshold [OF k, of exampleWalker] i n ex
  have "\<exists>msg. validate exampleWalker methodFoo =
      Inr (exampleWalker\<lparr>failures := failures exampleWalker @
             [\<lparr>failureNode = nid methodFoo, failureStart = getStart methodFoo,
               failureWidth = getWidth methodFoo, failureText = msg\<rparr>]\<rparr>)"
    by blast
  with k i n len thr show ?thesis by blast
qed

text \<open>
  C3 as stated fails for a suppressed node: while the children of the matching call to
  \<open>describe\<close> are visited, its argument (node 3) is on the ignore list; its body
  length 7 is greater than the resolved threshold 5, and validating it records nothing.
\<close>

theorem suppressed_node_not_flagged_counterexample:
  "isFunctionLike (kind describeArgument) \<and>
   calcBodyLength suppressedWalker describeArgument = 7 \<and>
   resolvedThreshold suppressedWalker (kind describeArgument) = Some (JNumber (Finite 5)) \<and>
   greaterThan (js suppressedWalker) 7 (Some (JNumber (Finite 5))) \<and>
   validate suppressedWalker describeArgument = Inr suppressedWalker"
  by (simp add: describeArgument_def suppressedWalker_def suppressingWalker_def
      resolvedThreshold_def perKindMaximum_def visit_eval)

text \<open>
  C4. For a node with a body, the computed length is the line of the body's end position
  minus the line of its start position; a body that starts and ends on the same line has
  length 0.
\<close>

theorem body_length_is_line_difference:
  assumes "body node = Some (bodyPos, bodyEnd)"
  shows "calcBodyLength w node = int (lineOfPosition w bodyEnd) - int (lineOfPosition w bodyPos)
         \<and> (lineOfPosition w bodyEnd = lineOfPosition w bodyPos \<longrightarrow> calcBodyLength w node = 0)"
  using assms by (simp add: calcBodyLength_def)

theorem body_length_is_line_difference_witness:
  "body oneLiner = Some (12, 19) \<and> calcBodyLength exampleWalker oneLiner = 0 \<and>
   body methodFoo = Some (14, 68) \<and> calcBodyLength exampleWalker methodFoo = 5"
  using body_length_is_line_difference [of oneLiner 12 19 exampleWalker]
        body_length_is_line_difference [of methodFoo 14 68 exampleWalker]
  by (simp add: oneLiner_def methodFoo_def exampleWalker_def)

lemma exceedsNumber_zero: "exceedsNumber 0 x = negative x"
  by (cases x) simp_all

text \<open>
  C5, as the code has it. A function-like node without a body has computed length 0, and
  validating it records nothing, whenever the threshold resolved for its kind is
  undefined or, as a number, not negative.
\<close>

theorem bodiless_never_flagged:
  assumes "body node = None" and "isFunctionLike (kind node)"
    and "\<forall>v. resolvedThreshold w (kind node) = Some v \<longrightarrow> \<not> negative (toNumber (js w) v)"
  shows "calcBodyLength w node = 0 \<and> validate w node = Inr w"
proof -
  have len: "calcBodyLength w node = 0"
    using assms(1) by (simp add: calcBodyLength_def)
  have "greaterThan (js w) 0 (resolvedThreshold w (kind node)) = False"
    using assms(3) by (cases "resolvedThreshold w (kind node)") (auto simp: exceedsNumber_zero)
  then have "isFunctionTooLong w (kind node) 0 = Inr False"
    using isFunctionTooLong_resolved [OF assms(2), of w 0] by simp
  then have "validate w node = Inr w"
    using len by (simp add: validate_def)
  with len show ?thesis by simp
qed

theorem bodiless_never_flagged_witness:
  "body abstractMethod = None \<and> isFunctionLike (kind abstractMethod) \<and>
   resolvedThreshold exampleWalker (kind abstractMethod) = Some (JNumber (Finite 3)) \<and>
   calcBodyLength exampleWalker abstractMethod = 0 \<and>
   validate exampleWalker abstractMethod = Inr exampleWalker"
proof -
  have b: "body abstractMethod = None" by (simp add: abstractMethod_def)
  have k: "isFunctionLike (kind abstractMethod)"
    by (simp add: abstractMethod_def isFunctionLike_def)
  have thr: "resolvedThreshold exampleWalker (kind abstractMethod) = Some (JNumber (Finite 3))"
    by (simp add: abstractMethod_def exampleWalker_def resolvedThreshold_def perKindMaximum_def)
  then have nonneg: "\<forall>v. resolvedThreshold exampleWalker (kind abstractMethod) = Some v
                       \<longrightarrow> \<not> negative (toNumber (js exampleWalker) v)"
    by simp
  from bodiless_never_flagged [OF b k nonneg] b k thr show ?thesis by simp
qed

text \<open>
  C5 as stated fails for a negative threshold: with the options \<open>[-1]\<close>, the overload
  signature \<open>function f(): void;\<close> has no body and is reported, since \<open>0 > -1\<close>.
\<close>

theorem bodiless_negative_threshold_counterexample:
  "body overloadSignature = None \<and>
   applyRule exampleJs signatureFile fallbackMinusOne =
     Inr [\<lparr>failureNode = 1, failureStart = 0, failureWidth = 21,
           failureText =
             ''Max function body length exceeded in function f() - max: -1, actual: 0''\<rparr>]"
  by (simp add: signatureFile_def overloadSignature_def fallbackMinusOne_def rule_eval)

text \<open>
  C8. For every kind other than the four function-like kinds, both the kind-label lookup
  and the threshold lookup throw the internal error instead of returning a value.
\<close>

theorem unsupported_kind_throws:
  assumes "\<not> isFunctionLike k"
  shows "getFuncTypeText k = Inl (UnsupportedNodeKind k) \<and>
         getMaxLength w k = Inl (UnsupportedNodeKind k)"
  using assms by (cases k) (simp_all add: isFunctionLike_def)

theorem unsupported_kind_throws_witness:
  "\<not> isFunctionLike ClassDeclaration \<and>
   getFuncTypeText ClassDeclaration = Inl (UnsupportedNodeKind ClassDeclaration) \<and>
   getMaxLength exampleWalker ClassDeclaration = Inl (UnsupportedNodeKind ClassDeclaration)"
  using unsupported_kind_throws [of ClassDeclaration exampleWalker]
  by (simp add: isFunctionLike_def)

subsection \<open>Failure messages\<close>





subsection \<open>Configuration errors\<close>

lemma parseOption_error:
  assumes "parseOption w x = Inl e"
  shows "x = OptNull \<or> (\<exists>r. e = SyntaxError r \<and> regExp (js w) r = None)"
  using assms
  by (cases x) (auto simp: Let_def split: option.splits if_splits)

lemma parseOption_frame:
  assumes "parseOption w x = Inr w'"
  shows "js w' = js w \<and> failures w' = failures w"
  using assms
  by (cases x) (auto simp: Let_def split: option.splits if_splits)

lemma parseOption_bad_pattern:
  assumes "ignoreParametersToFunction ob = Some (JString regex)"
    and "regExp (js w) regex = None" and "regExp (js w) [] \<noteq> None"
  shows "parseOption w (OptObject ob) = Inl (SyntaxError regex)"
proof -
  from assms(2,3) have "regex \<noteq> []" by auto
  with assms(1,2) show ?thesis by (simp add: Let_def)
qed

lemma parseOptions_bad_pattern:
  assumes "OptObject ob \<in> set options"
    and "ignoreParametersToFunction ob = Some (JString regex)"
    and "regExp (js w) regex = None" and "regExp (js w) [] \<noteq> None"
  shows "\<exists>e. parseOptions w options = Inl e \<and>
             (OptNull \<notin> set options \<longrightarrow> (\<exists>r. e = SyntaxError r \<and> regExp (js w) r = None))"
  using assms(1,3,4)
proof (induction options arbitrary: w)
  case Nil
  then show ?case by simp
next
  case (Cons x xs)
  show ?case
  proof (cases "parseOption w x")
    case (Inl e)
    with parseOption_error [OF Inl] show ?thesis by auto
  next
    case (Inr w')
    with parseOption_bad_pattern [OF assms(2) Cons.prems(2,3)]
    have "x \<noteq> OptObject ob" by auto
    with Cons.prems(1) have mem: "OptObject ob \<in> set xs" by simp
    from parseOption_frame [OF Inr] have rt: "js w' = js w" by simp
    from Cons.IH [OF mem, of w'] Cons.prems(2,3) rt Inr show ?thesis by auto
  qed
qed

text \<open>
  C7. When some object entry of the options carries a pattern string that does not
  compile (the empty pattern always compiles), the walker's constructor throws: no
  walker is built, the rule returns that error for every source file, and no node is
  visited. If no entry is \<open>null\<close>, the error is the SyntaxError of a pattern that does
  not compile.
\<close>

theorem bad_pattern_fails_at_construction:
  assumes "OptObject ob \<in> set options"
    and "ignoreParametersToFunction ob = Some (JString regex)"
    and "regExp rt regex = None" and "regExp rt [] \<noteq> None"
  shows "\<exists>e. newWalker rt sf options = Inl e \<and>
             applyRule rt sf options = Inl e \<and>
             (OptNull \<notin> set options \<longrightarrow> (\<exists>r. e = SyntaxError r \<and> regExp rt r = None))"
proof -
  have rt: "js (initialWalker rt sf) = rt" by (simp add: initialWalker_def)
  from parseOptions_bad_pattern [of ob options regex "initialWalker rt sf"] assms rt
  show ?thesis by (auto simp: newWalker_def applyRule_def)
qed

theorem bad_pattern_fails_at_construction_witness:
  "regExp exampleJs ''('' = None \<and> regExp exampleJs [] \<noteq> None \<and>
   newWalker exampleJs emptyFile badPatternOptions = Inl (SyntaxError ''('') \<and>
   applyRule exampleJs emptyFile badPatternOptions = Inl (SyntaxError ''('')"
proof -
  let ?ob = "\<lparr>funcBodyLength = None, arrowBodyLength = None, methodBodyLength = None,
              ctorBodyLength = None, ignoreParametersToFunction = Some (JString ''('')\<rparr>"
  have a: "OptObject ?ob \<in> set badPatternOptions" by (simp add: badPatternOptions_def)
  have b: "ignoreParametersToFunction ?ob = Some (JString ''('')" by simp
  have c: "regExp exampleJs ''('' = None" by (simp add: exampleJs_def exampleRegExp_def)
  have d: "regExp exampleJs [] \<noteq> None" by (simp add: exampleJs_def exampleRegExp_def)
  have n: "OptNull \<notin> set badPatternOptions" by (simp add: badPatternOptions_def)
  from bad_pattern_fails_at_construction [OF a b c d, of emptyFile] n
  obtain e r where "newWalker exampleJs emptyFile badPatternOptions = Inl e"
    and "applyRule exampleJs emptyFile badPatternOptions = Inl e"
    and "e = SyntaxError r" and "regExp exampleJs r = None" by auto
  moreover from this(4) have "r = ''(''"
    by (simp add: exampleJs_def exampleRegExp_def split: if_splits)
  ultimately show ?thesis using c d by simp
qed

subsection \<open>Class declarations\<close>

text \<open>
  C10. Visiting a class declaration that has no name throws (the read of
  \<open>node.name.text\<close> fails), whatever the walker's thresholds, ignore list and recorded
  failures are.
\<close>

theorem anonymous_class_throws:
  assumes "kind node = ClassDeclaration" and "name node = None"
  shows "visitNode w node = Inl TypeError"
  using assms by (cases node) (simp add: nameText_def)

theorem anonymous_class_throws_witness:
  "kind anonymousClass = ClassDeclaration \<and> name anonymousClass = None \<and>
   visitNode exampleWalker anonymousClass = Inl TypeError"
  using anonymous_class_throws [of anonymousClass exampleWalker]
  by (simp add: anonymousClass_def)

text \<open>
  C2 on the nested-class file. The constructor (node 4) of \<open>Outer\<close> comes after the
  method whose body declares \<open>Inner\<close>; leaving \<open>Inner\<close> resets the current class
  name, so the constructor's failure names the class \<open>undefined\<close>, not \<open>Outer\<close>.
\<close>

theorem nested_class_constructor_reports_undefined:
  "applyRule exampleJs nestedClassFile ctorOptions =
     Inr [\<lparr>failureNode = 4, failureStart = 40, failureWidth = 68,
           failureText =
             ''Max constructor body length exceeded in class undefined - max: 2, actual: 5''\<rparr>]"
  by (simp add: nestedClassFile_def ctorOptions_def rule_eval)

subsection \<open>What a visit does to the walker\<close>

text \<open>
  \<open>validate\<close> either leaves the walker as it is, or the node is not on the ignore list,
  its length exceeds a defined threshold, and one failure for the node is appended.
\<close>

lemma validate_result:
  assumes "validate w node = Inr w'"
  shows "w' = w \<or>
         (\<exists>msg v. nid node \<notin> set (ignoreNodes w) \<and>
            getMaxLength w (kind node) = Inr (Some v) \<and>
            greaterThan (js w) (calcBodyLength w node) (Some v) \<and>
            formatFailureText w node (calcBodyLength w node) = Inr msg \<and>
            w' = w\<lparr>failures := failures w @
                    [\<lparr>failureNode = nid node, failureStart = getStart node,
                      failureWidth = getWidth node, failureText = msg\<rparr>]\<rparr>)"
proof (cases "contains (ignoreNodes w) (nid node)")
  case True
  with assms show ?thesis by (simp add: validate_def)
next
  case False
  show ?thesis
  proof (cases "getMaxLength w (kind node)")
    case (Inl e)
    with assms False show ?thesis by (simp add: validate_def isFunctionTooLong_def)
  next
    case (Inr t)
    show ?thesis
    proof (cases t)
      case None
      with assms False Inr show ?thesis by (simp add: validate_def isFunctionTooLong_def)
    next
      case (Some v)
      with assms False Inr show ?thesis
        by (auto simp: validate_def isFunctionTooLong_def addFuncBodyTooLongFailure_def
            contains_def Let_def simp del: greaterThan.simps split: if_splits sum.splits)
    qed
  qed
qed

subsection \<open>Emitted failures\<close>














subsection \<open>Suppression\<close>

lemma subtreeIds_unfold: "subtreeIds n = nid n # descendantIds n"
  by (cases n) (simp add: descendantIds_def)

lemma descendantIds_children:
  "set (concat (map descendantIds ns)) \<subseteq> set (concat (map subtreeIds ns))"
  by (auto simp: subtreeIds_unfold)

text \<open>
  In a list of sibling subtrees whose identities are all distinct, no sibling is a
  proper descendant of a sibling.
\<close>

lemma distinct_siblings:
  assumes "distinct (concat (map subtreeIds ns))" and "x \<in> set ns" and "y \<in> set ns"
  shows "nid x \<notin> set (descendantIds y)"
  using assms
proof (induction ns)
  case Nil
  then show ?case by simp
next
  case (Cons n ns)
  from Cons.prems(1) have dn: "distinct (subtreeIds n)"
    and dr: "distinct (concat (map subtreeIds ns))"
    and dj: "set (subtreeIds n) \<inter> set (concat (map subtreeIds ns)) = {}"
    by auto
  have inrest: "\<And>z. z \<in> set ns \<Longrightarrow> set (subtreeIds z) \<subseteq> set (concat (map subtreeIds ns))"
    by auto
  show ?case
  proof (cases "x = n")
    case xn: True
    show ?thesis
    proof (cases "y = n")
      case True
      with xn dn show ?thesis by (simp add: subtreeIds_unfold)
    next
      case False
      with Cons.prems(3) have "y \<in> set ns" by simp
      from inrest [OF this] dj xn show ?thesis by (auto simp: subtreeIds_unfold)
    qed
  next
    case xr: False
    with Cons.prems(2) have x: "x \<in> set ns" by simp
    show ?thesis
    proof (cases "y = n")
      case True
      from inrest [OF x] dj True show ?thesis by (auto simp: subtreeIds_unfold)
    next
      case False
      with Cons.prems(3) have "y \<in> set ns" by simp
      from Cons.IH [OF dr x this] show ?thesis .
    qed
  qed
qed

lemma new_failures_compose:
  assumes "\<exists>new. failures v = failures w @ new \<and> A \<inter> failureNode ` set new = {}"
    and "\<exists>new. failures w' = failures v @ new \<and> A \<inter> failureNode ` set new = {}"
  shows "\<exists>new. failures w' = failures w @ new \<and> A \<inter> failureNode ` set new = {}"
proof -
  from assms(1) obtain n1 where
    n1: "failures v = failures w @ n1" "A \<inter> failureNode ` set n1 = {}"
    by blast
  from assms(2) obtain n2 where
    n2: "failures w' = failures v @ n2" "A \<inter> failureNode ` set n2 = {}"
    by blast
  from n1 n2
  have "failures w' = failures w @ (n1 @ n2) \<and> A \<inter> failureNode ` set (n1 @ n2) = {}"
    by (simp add: image_Un Int_Un_distrib)
  then show ?thesis by blast
qed

text \<open>
  Nodes on the ignore list that are not proper descendants of the visited subtree stay
  on the list through the visit, and the visit records no failure for them.
\<close>

lemma ignored_stay_ignored:
  "visitNode w n = Inr w' \<Longrightarrow> A \<subseteq> set (ignoreNodes w) \<Longrightarrow> A \<inter> set (descendantIds n) = {}
     \<Longrightarrow> A \<subseteq> set (ignoreNodes w') \<and>
         (\<exists>new. failures w' = failures w @ new \<and> A \<inter> failureNode ` set new = {})"
  "walkChildren w ns = Inr w'' \<Longrightarrow> A \<subseteq> set (ignoreNodes w)
     \<Longrightarrow> A \<inter> set (concat (map descendantIds ns)) = {}
     \<Longrightarrow> A \<subseteq> set (ignoreNodes w'') \<and>
         (\<exists>new. failures w'' = failures w @ new \<and> A \<inter> failureNode ` set new = {})"
proof (induction w n and w ns arbitrary: w' and w'' rule: visitNode_walkChildren.induct)
  case (1 w i k nm b fn st wd cs args)
  let ?n = "Node i k nm b fn st wd cs args"
  from "1.prems"(3) have sub: "A \<inter> set (concat (map subtreeIds (cs @ args))) = {}"
    by (simp add: descendantIds_def)
  with descendantIds_children [of "cs @ args"]
  have kids: "A \<inter> set (concat (map descendantIds (cs @ args))) = {}" by blast
  show ?case
  proof (cases "k = CallExpression")
    case True
    show ?thesis
    proof (cases "matchesIgnoreRegex w fn")
      case m: True
      from "1.prems"(1) True m obtain v where
        v: "walkChildren (w\<lparr>ignoreNodes := ignoreNodes w @ map nid args\<rparr>) (cs @ args) = Inr v"
        and w': "w' = v\<lparr>ignoreNodes := removeAllFrom (ignoreNodes v) (map nid args)\<rparr>"
        by (auto split: sum.splits)
      from "1.prems"(2)
      have "A \<subseteq> set (ignoreNodes (w\<lparr>ignoreNodes := ignoreNodes w @ map nid args\<rparr>))" by auto
      from "1.IH"(1) [OF True m v this kids]
      have keep: "A \<subseteq> set (ignoreNodes v)"
        and new: "\<exists>new. failures v = failures w @ new \<and> A \<inter> failureNode ` set new = {}"
        by simp_all
      from sub have "A \<inter> nid ` set args = {}" by (auto simp: subtreeIds_unfold)
      with keep have "A \<subseteq> set (removeAllFrom (ignoreNodes v) (map nid args))"
        by (auto simp: removeAllFrom_def contains_def)
      with new w' show ?thesis by simp
    next
      case m: False
      with "1.prems"(1) True have "walkChildren w (cs @ args) = Inr w'" by simp
      from "1.IH"(2) [OF True m this "1.prems"(2) kids] show ?thesis .
    qed
  next
    case notCall: False
    show ?thesis
    proof (cases "k = ClassDeclaration")
      case True
      from "1.prems"(1) notCall True obtain t v where
        t: "nameText ?n = Inr t"
        and v: "walkChildren (w\<lparr>currentClassName := t\<rparr>) (cs @ args) = Inr v"
        and w': "w' = v\<lparr>currentClassName := None\<rparr>"
        by (auto split: sum.splits)
      from "1.prems"(2) have "A \<subseteq> set (ignoreNodes (w\<lparr>currentClassName := t\<rparr>))" by simp
      from "1.IH"(3) [OF notCall True t v this kids] w' show ?thesis by simp
    next
      case notClass: False
      show ?thesis
      proof (cases "isFunctionLike k")
        case True
        from "1.prems"(1) notCall notClass True obtain v where
          v: "validate w ?n = Inr v"
          and r: "walkChildren v (cs @ args) = Inr w'"
          by (auto split: sum.splits)
        from validate_result [OF v] "1.prems"(2)
        have ig: "ignoreNodes v = ignoreNodes w"
          and fv: "\<exists>new. failures v = failures w @ new \<and> A \<inter> failureNode ` set new = {}"
          by auto
        from "1.prems"(2) ig have "A \<subseteq> set (ignoreNodes v)" by simp
        from "1.IH"(4) [OF notCall notClass True v r this kids]
        have "A \<subseteq> set (ignoreNodes w')"
          and "\<exists>new. failures w' = failures v @ new \<and> A \<inter> failureNode ` set new = {}"
          by simp_all
        with new_failures_compose [OF fv] show ?thesis by simp
      next
        case False
        with "1.prems"(1) notCall notClass have "walkChildren w (cs @ args) = Inr w'" by simp
        from "1.IH"(5) [OF notCall notClass False this "1.prems"(2) kids] show ?thesis .
      qed
    qed
  qed
next
  case (2 w)
  then show ?case by simp
next
  case (3 w c rest)
  from "3.prems"(1) obtain v where v: "visitNode w c = Inr v" and r: "walkChildren v rest = Inr w''"
    by (auto split: sum.splits)
  from "3.prems"(3) have c: "A \<inter> set (descendantIds c) = {}"
    and rest: "A \<inter> set (concat (map descendantIds rest)) = {}" by auto
  from "3.IH"(1) [OF v "3.prems"(2) c]
  have keep: "A \<subseteq> set (ignoreNodes v)"
    and new: "\<exists>new. failures v = failures w @ new \<and> A \<inter> failureNode ` set new = {}"
    by simp_all
  from "3.IH"(2) [OF v r keep rest]
  have "A \<subseteq> set (ignoreNodes w'')"
    and "\<exists>new. failures w'' = failures v @ new \<and> A \<inter> failureNode ` set new = {}"
    by simp_all
  with new_failures_compose [OF new] show ?case by simp
qed

text \<open>
  C1, as the code has it. For a call whose callee name matches the pattern, in a tree
  whose nodes are distinct: the visit of the call records no failure for any of the
  call's argument nodes themselves, and when the visit returns none of them is on the
  ignore list any more. (Function-like nodes inside an argument are validated as
  usual.)
\<close>

theorem matching_call_exempts_argument_nodes:
  assumes "kind call = CallExpression"
    and "matchesIgnoreRegex w (functionName call)"
    and "distinct (subtreeIds call)"
    and "visitNode w call = Inr w'"
  shows "(\<exists>new. failures w' = failures w @ new \<and>
            (\<forall>f\<in>set new. failureNode f \<notin> nid ` set (arguments call))) \<and>
         (\<forall>arg\<in>set (arguments call). nid arg \<notin> set (ignoreNodes w'))"
proof (cases call)
  case (Node i k nm b fn st wd cs args)
  let ?A = "nid ` set args"
  let ?w1 = "w\<lparr>ignoreNodes := ignoreNodes w @ map nid args\<rparr>"
  from assms(1,2,4) Node obtain v where
    v: "walkChildren ?w1 (cs @ args) = Inr v"
    and w': "w' = v\<lparr>ignoreNodes := removeAllFrom (ignoreNodes v) (map nid args)\<rparr>"
    by (auto split: sum.splits)
  from assms(3) Node have d: "distinct (concat (map subtreeIds (cs @ args)))" by simp
  have "\<And>x y. x \<in> set args \<Longrightarrow> y \<in> set (cs @ args) \<Longrightarrow> nid x \<notin> set (descendantIds y)"
    using distinct_siblings [OF d] by simp
  then have disj: "?A \<inter> set (concat (map descendantIds (cs @ args))) = {}" by auto
  have "?A \<subseteq> set (ignoreNodes ?w1)" by auto
  from ignored_stay_ignored(2) [OF v this disj]
  obtain new where "failures v = failures w @ new" and "?A \<inter> failureNode ` set new = {}"
    by auto
  with w' have "failures w' = failures w @ new \<and> (\<forall>f\<in>set new. failureNode f \<notin> ?A)"
    by auto
  then have first: "\<exists>new. failures w' = failures w @ new \<and>
            (\<forall>f\<in>set new. failureNode f \<notin> ?A)" ..
  from w' have second: "\<forall>arg\<in>set args. nid arg \<notin> set (ignoreNodes w')"
    by (simp add: removeAllFrom_def contains_def)
  from Node have "arguments call = args" by simp
  with first second show ?thesis by simp
qed

lemma describeCall_visit:
  "visitNode suppressingWalker describeCall =
     Inr (suppressingWalker\<lparr>failures :=
            [\<lparr>failureNode = 6, failureStart = 30, failureWidth = 62,
              failureText = ''Max arrow function body length exceeded - max: 5, actual: 6''\<rparr>]\<rparr>)"
  by (simp add: describeCall_def describeArgument_def describeInner_def suppressingWalker_def
      visit_eval)

theorem matching_call_exempts_argument_nodes_witness:
  "kind describeCall = CallExpression \<and>
   matchesIgnoreRegex suppressingWalker (functionName describeCall) \<and>
   distinct (subtreeIds describeCall) \<and>
   map nid (arguments describeCall) = [3] \<and>
   calcBodyLength suppressingWalker describeArgument = 7 \<and>
   (\<exists>w'. visitNode suppressingWalker describeCall = Inr w' \<and>
      (\<forall>f\<in>set (failures w'). failureNode f \<noteq> 3) \<and> 3 \<notin> set (ignoreNodes w'))"
proof -
  have k: "kind describeCall = CallExpression" by (simp add: describeCall_def)
  have m: "matchesIgnoreRegex suppressingWalker (functionName describeCall)"
    by (simp add: describeCall_def suppressingWalker_def matchesIgnoreRegex_def)
  have d: "distinct (subtreeIds describeCall)"
    by (simp add: describeCall_def describeArgument_def describeInner_def)
  have a: "map nid (arguments describeCall) = [3]"
    by (simp add: describeCall_def describeArgument_def)
  have len: "calcBodyLength suppressingWalker describeArgument = 7"
    by (simp add: describeArgument_def suppressingWalker_def calcBodyLength_def)
  from describeCall_visit obtain w' where v: "visitNode suppressingWalker describeCall = Inr w'"
    by blast
  from matching_call_exempts_argument_nodes [OF k m d v] obtain new where
    n: "failures w' = failures suppressingWalker @ new"
    and nf: "\<forall>f\<in>set new. failureNode f \<notin> nid ` set (arguments describeCall)"
    and ig: "\<forall>arg\<in>set (arguments describeCall). nid arg \<notin> set (ignoreNodes w')"
    by blast
  have args: "arguments describeCall = [describeArgument]" and three: "nid describeArgument = 3"
    by (simp_all add: describeCall_def describeArgument_def)
  from n have "failures w' = new" by (simp add: suppressingWalker_def)
  with nf args three have "\<forall>f\<in>set (failures w'). failureNode f \<noteq> 3" by simp
  moreover from ig args three have "3 \<notin> set (ignoreNodes w')" by simp
  ultimately show ?thesis using v k m d a len by blast
qed

text \<open>
  C1 as stated fails: the inner arrow function (node 6) lies inside the argument
  (node 3) of the matching call to \<open>describe\<close>, and the visit of that call records a
  failure for it.
\<close>

theorem nested_function_in_argument_counterexample:
  "kind describeCall = CallExpression \<and>
   matchesIgnoreRegex suppressingWalker (functionName describeCall) \<and>
   arguments describeCall = [describeArgument] \<and>
   6 \<in> set (subtreeIds describeArgument) \<and>
   visitNode suppressingWalker describeCall =
     Inr (suppressingWalker\<lparr>failures :=
            [\<lparr>failureNode = 6, failureStart = 30, failureWidth = 62,
              failureText = ''Max arrow function body length exceeded - max: 5, actual: 6''\<rparr>]\<rparr>)"
  by (simp add: describeCall_def describeArgument_def describeInner_def suppressingWalker_def
      visit_eval)

end
